theory Spec2Isabelle
  imports Complex_Main
begin

section \<open>Values of the platform\<close>

text \<open>
  The helper module (\<^verbatim>\<open>helpers.ts\<close>) and the tool handlers (\<^verbatim>\<open>index.ts\<close>) run on a
  JavaScript platform. The parts of the platform the code touches are modelled as data:
  a JSON value as it comes out of \<^verbatim>\<open>response.json()\<close>, the error values that can be thrown,
  and the three states in which an awaited promise can be found.
\<close>

datatype json =
    JNull
  | JBool bool
  | JNumber real
  | JString string
  | JArray "json list"
  | JObject "(string \<times> json) list"

datatype js_error =
    HTTPError nat      \<comment> \<open>\<^verbatim>\<open>new Error(`HTTP error! status: ${response.status}`)\<close>\<close>
  | TypeError string
  | SyntaxError string
  | OtherError string

text \<open>
  An \<^verbatim>\<open>await\<close> either continues with a value, throws the rejection reason, or never
  continues because the promise stays pending (the code sets no timeout).
\<close>

datatype 'a promise = Fulfilled 'a | Rejected js_error | Pending

text \<open>
  The parameter \<^verbatim>\<open>options?: RequestInit\<close> may carry its headers in any of the three forms
  of \<^verbatim>\<open>HeadersInit\<close>: a plain object from names to strings, an array of pairs of a name
  and a value, or an instance of the class \<^verbatim>\<open>Headers\<close> (given here by the pairs it
  holds).
\<close>

datatype headers_init =
    PlainObject "string \<rightharpoonup> string"
  | PairArray "(string \<times> string) list"
  | HeadersInstance "(string \<times> string) list"

text \<open>
  The object the dispatcher builds with the spread \<^verbatim>\<open>{...a, ...b}\<close> is a plain object,
  a finite map from property names to values. The spread copies the own enumerable
  properties of \<^verbatim>\<open>a\<close> and then those of \<^verbatim>\<open>b\<close>, by exact name, so the result is
  \<open>a ++ b\<close>. A property copied from an array of pairs has a pair as its value.
\<close>

datatype header_value = HString string | HPair string string

type_synonym js_object = "string \<rightharpoonup> header_value"

text \<open>
  The fields of \<^verbatim>\<open>RequestInit\<close> the code writes. The caller's options have optional
  headers of type \<open>headers_init\<close>; the options handed to \<^verbatim>\<open>fetch\<close> have the merged
  object.
\<close>

record 'h request_init =
  http_method :: "string option"  \<comment> \<open>the property \<^verbatim>\<open>method\<close>\<close>
  body :: "string option"
  headers :: 'h

type_synonym caller_options = "headers_init option request_init"

type_synonym request_options = "js_object request_init"

text \<open>
  A response carries its status and what calling \<^verbatim>\<open>json()\<close> on it gives: the parsed
  body, a rejection when the body is not valid JSON, or nothing when the body never ends.
  The getter \<^verbatim>\<open>ok\<close> of the Fetch standard is true exactly for the statuses 200 to 299.
\<close>

record response =
  status :: nat
  json_result :: "json promise"

definition ok :: "response \<Rightarrow> bool" where
  "ok r = (200 \<le> status r \<and> status r \<le> 299)"

text \<open>
  The platform functions the code calls: \<^verbatim>\<open>fetch\<close>, \<^verbatim>\<open>JSON.stringify\<close> and the conversion
  of a number to a string inside a template literal.
\<close>

record platform =
  fetch :: "string \<Rightarrow> request_options \<Rightarrow> response promise"
  JSON_stringify :: "json \<Rightarrow> string"
  Number_toString :: "real \<Rightarrow> string"

text \<open>What a run does besides returning: the diagnostics written and the requests sent.\<close>

datatype console_message =
    NoApiKeyAvailable          \<comment> \<open>\<^verbatim>\<open>'No API key available. Please set your Emelia API key.'\<close>\<close>
  | ErrorMakingRequest js_error  \<comment> \<open>\<^verbatim>\<open>'Error making Emelia API request:', error\<close>\<close>

datatype effect =
    ConsoleError console_message
  | Fetch string request_options

text \<open>The requests among the effects of a run, in the order they were sent.\<close>

fun sent_requests :: "effect list \<Rightarrow> request_options list" where
  "sent_requests [] = []"
| "sent_requests (Fetch url ro # es) = ro # sent_requests es"
| "sent_requests (ConsoleError m # es) = sent_requests es"

section \<open>The credential holder\<close>

text \<open>The module variable \<^verbatim>\<open>let userApiKey: string | null = null\<close>.\<close>

record helpers_state =
  userApiKey :: "string option"

definition initial_state :: helpers_state where
  "initial_state = \<lparr>userApiKey = None\<rparr>"

definition USER_AGENT :: string where
  "USER_AGENT = ''emelia-mcp/1.0''"

definition setEmeliaApiKey :: "string \<Rightarrow> helpers_state \<Rightarrow> helpers_state" where
  "setEmeliaApiKey apiKey s = s\<lparr>userApiKey := Some apiKey\<rparr>"

definition clearEmeliaApiKey :: "helpers_state \<Rightarrow> helpers_state" where
  "clearEmeliaApiKey s = s\<lparr>userApiKey := None\<rparr>"

text \<open>
  \<^verbatim>\<open>return userApiKey || null\<close>: the operator \<^verbatim>\<open>||\<close> gives its right operand when the
  left one is falsy, and the falsy values of type \<^verbatim>\<open>string | null\<close> are \<^verbatim>\<open>null\<close> and the
  empty string.
\<close>

definition getEmeliaApiKey :: "helpers_state \<Rightarrow> string option" where
  "getEmeliaApiKey s =
     (case userApiKey s of
        None \<Rightarrow> None
      | Some k \<Rightarrow> if k = [] then None else Some k)"

section \<open>The request dispatcher\<close>

text \<open>
  \<^verbatim>\<open>!k\<close> for \<^verbatim>\<open>k: string | null\<close> or for an optional string argument: true for
  \<^verbatim>\<open>null\<close>, \<^verbatim>\<open>undefined\<close> and the empty string.
\<close>

definition falsy_string :: "string option \<Rightarrow> bool" where
  "falsy_string k = (case k of None \<Rightarrow> True | Some x \<Rightarrow> x = [])"

text \<open>Lines 30 to 35: the fixed header set, built from the key.\<close>

definition fixed_headers :: "string \<Rightarrow> js_object" where
  "fixed_headers apiKey =
     [''User-Agent'' \<mapsto> HString USER_AGENT,
      ''Accept'' \<mapsto> HString ''application/json'',
      ''Authorization'' \<mapsto> HString (''Bearer '' @ apiKey),
      ''Content-Type'' \<mapsto> HString ''application/json'']"

text \<open>The name of the array index \<open>n\<close> as a property: its decimal digits.\<close>

fun decimal :: "nat \<Rightarrow> string" where
  "decimal n =
     (if n < 10 then [''0123456789'' ! n]
      else decimal (n div 10) @ [''0123456789'' ! (n mod 10)])"

text \<open>The properties of an array of pairs, from index \<open>i\<close> on: each pair under its index.\<close>

fun index_properties :: "nat \<Rightarrow> (string \<times> string) list \<Rightarrow> js_object" where
  "index_properties i [] = Map.empty"
| "index_properties i ((n, v) # ps) = (index_properties (Suc i) ps)(decimal i \<mapsto> HPair n v)"

text \<open>
  What the spread \<^verbatim>\<open>...h\<close> copies from headers \<open>h\<close>: the properties of a plain object;
  the elements of an array under their indices; nothing from an instance of \<^verbatim>\<open>Headers\<close>,
  which keeps its entries out of its own enumerable properties.
\<close>

fun own_enumerable_properties :: "headers_init \<Rightarrow> js_object" where
  "own_enumerable_properties (PlainObject m) = (\<lambda>n. map_option HString (m n))"
| "own_enumerable_properties (PairArray ps) = index_properties 0 ps"
| "own_enumerable_properties (HeadersInstance hs) = Map.empty"

text \<open>
  Lines 38 to 44: \<^verbatim>\<open>{...options, headers: {...headers, ...(options?.headers || {})}}\<close>.
  An object is never falsy, so \<^verbatim>\<open>|| {}\<close> only replaces missing headers.
  \<open>caller_headers\<close> is what \<^verbatim>\<open>...(options?.headers || {})\<close> copies.
\<close>

definition caller_headers :: "caller_options option \<Rightarrow> js_object" where
  "caller_headers options =
     (case options of
        None \<Rightarrow> Map.empty
      | Some opt \<Rightarrow>
          (case headers opt of
             None \<Rightarrow> Map.empty
           | Some h \<Rightarrow> own_enumerable_properties h))"

definition requestOptions :: "string \<Rightarrow> caller_options option \<Rightarrow> request_options" where
  "requestOptions apiKey options =
     (let merged = fixed_headers apiKey ++ caller_headers options
      in case options of
           None \<Rightarrow> \<lparr>http_method = None, body = None, headers = merged\<rparr>
         | Some opt \<Rightarrow>
             \<lparr>http_method = http_method opt, body = body opt, headers = merged\<rparr>)"

text \<open>
  \<^verbatim>\<open>makeEmeliaRequest\<close>, lines 19 to 55. The result is what the awaited call gives its
  caller together with the effects in the order they happen; the absent result
  \<^verbatim>\<open>null\<close> is \<open>JNull\<close>. Everything from line 37 on runs inside \<^verbatim>\<open>try\<close>, and the
  \<^verbatim>\<open>catch\<close> block logs the error and returns \<^verbatim>\<open>null\<close>.
\<close>

definition makeEmeliaRequest ::
  "platform \<Rightarrow> helpers_state \<Rightarrow> string \<Rightarrow> caller_options option
     \<Rightarrow> effect list \<times> json promise"
where
  "makeEmeliaRequest P s url options =
     (let apiKey = getEmeliaApiKey s
      in if falsy_string apiKey
         then ([ConsoleError NoApiKeyAvailable], Fulfilled JNull)
         else
           let ro = requestOptions (the apiKey) options
           in (case fetch P url ro of
                 Pending \<Rightarrow> ([Fetch url ro], Pending)
               | Rejected e \<Rightarrow>
                   ([Fetch url ro, ConsoleError (ErrorMakingRequest e)], Fulfilled JNull)
               | Fulfilled r \<Rightarrow>
                   if \<not> ok r then
                     ([Fetch url ro, ConsoleError (ErrorMakingRequest (HTTPError (status r)))],
                      Fulfilled JNull)
                   else
                     (case json_result r of
                        Pending \<Rightarrow> ([Fetch url ro], Pending)
                      | Rejected e \<Rightarrow>
                          ([Fetch url ro, ConsoleError (ErrorMakingRequest e)], Fulfilled JNull)
                      | Fulfilled v \<Rightarrow> ([Fetch url ro], Fulfilled v))))"

section \<open>JavaScript operations on parsed JSON\<close>

text \<open>
  The handlers read the dispatcher's result with the permissive operators of the
  language. Truthiness: \<^verbatim>\<open>null\<close>, \<^verbatim>\<open>false\<close>, zero and the empty string are falsy, and
  every array and every object is truthy.
\<close>

fun truthy :: "json \<Rightarrow> bool" where
  "truthy JNull = False"
| "truthy (JBool b) = b"
| "truthy (JNumber x) = (x \<noteq> 0)"
| "truthy (JString s) = (s \<noteq> [])"
| "truthy (JArray xs) = True"
| "truthy (JObject kvs) = True"

text \<open>
  Reading a property of a value that is not \<^verbatim>\<open>null\<close>; \<open>None\<close> is \<^verbatim>\<open>undefined\<close>. It is
  used for the names \<^verbatim>\<open>campaigns\<close>, \<^verbatim>\<open>success\<close>, \<^verbatim>\<open>_id\<close>, \<^verbatim>\<open>name\<close> and
  \<^verbatim>\<open>status\<close>, which no prototype of a parsed JSON value defines. The property list of an
  object holds each name once.
\<close>

fun get_property :: "json \<Rightarrow> string \<Rightarrow> json option" where
  "get_property (JObject kvs) k = map_of kvs k"
| "get_property v k = None"

text \<open>\<^verbatim>\<open>x || d\<close> for a property that may be \<^verbatim>\<open>undefined\<close>.\<close>

definition or_else :: "json option \<Rightarrow> json \<Rightarrow> json" where
  "or_else x d = (case x of None \<Rightarrow> d | Some v \<Rightarrow> if truthy v then v else d)"

text \<open>\<^verbatim>\<open>Array.prototype.join\<close> on strings.\<close>

fun join :: "string \<Rightarrow> string list \<Rightarrow> string" where
  "join sep [] = []"
| "join sep [x] = x"
| "join sep (x # y # ys) = x @ sep @ join sep (y # ys)"

text \<open>Evaluation from left to right stops at the first exception.\<close>

fun sequence :: "(js_error + 'a) list \<Rightarrow> js_error + 'a list" where
  "sequence [] = Inr []"
| "sequence (Inl e # rs) = Inl e"
| "sequence (Inr x # rs) = (case sequence rs of Inl e \<Rightarrow> Inl e | Inr xs \<Rightarrow> Inr (x # xs))"

text \<open>
  The conversion to string of a template literal \<^verbatim>\<open>`${v}`\<close>. An array joins its
  elements with commas, writing nothing for \<^verbatim>\<open>null\<close>; an object is
  \<^verbatim>\<open>[object Object]\<close> unless it has an own property \<^verbatim>\<open>toString\<close>, which parsed JSON can
  only make a value that cannot be called, and then the conversion throws.
\<close>

fun toString :: "platform \<Rightarrow> json \<Rightarrow> js_error + string" where
  "toString P JNull = Inr ''null''"
| "toString P (JBool b) = Inr (if b then ''true'' else ''false'')"
| "toString P (JNumber x) = Inr (Number_toString P x)"
| "toString P (JString s) = Inr s"
| "toString P (JArray xs) =
     (case sequence (map (\<lambda>x. if x = JNull then Inr [] else toString P x) xs) of
        Inl e \<Rightarrow> Inl e
      | Inr ss \<Rightarrow> Inr (join '','' ss))"
| "toString P (JObject kvs) =
     (if map_of kvs ''toString'' = None then Inr ''[object Object]''
      else Inl (TypeError ''Cannot convert object to primitive value''))"

section \<open>Formatting a campaign\<close>

text \<open>\<^verbatim>\<open>`${campaign.f || '-'}`\<close> for a campaign that is not \<^verbatim>\<open>null\<close>.\<close>

definition field_or_dash :: "platform \<Rightarrow> json \<Rightarrow> string \<Rightarrow> js_error + string" where
  "field_or_dash P campaign f = toString P (or_else (get_property campaign f) (JString ''-''))"

text \<open>
  \<^verbatim>\<open>formatCampaign\<close>, lines 58 to 66 of the helper module. The data comes from the
  network, so the argument is any JSON value; reading a property of \<^verbatim>\<open>null\<close> throws.
\<close>

definition formatCampaign :: "platform \<Rightarrow> json \<Rightarrow> js_error + string" where
  "formatCampaign P campaign =
     (if campaign = JNull then Inl (TypeError ''Cannot read properties of null'')
      else
        (case field_or_dash P campaign ''_id'' of
           Inl e \<Rightarrow> Inl e
         | Inr cid \<Rightarrow>
             (case field_or_dash P campaign ''name'' of
                Inl e \<Rightarrow> Inl e
              | Inr cname \<Rightarrow>
                  (case field_or_dash P campaign ''status'' of
                     Inl e \<Rightarrow> Inl e
                   | Inr cstatus \<Rightarrow>
                       Inr (join [CHR 0x0A]
                             [''Campaign ID: '' @ cid,
                              ''Campaign Name: '' @ cname,
                              ''Campaign Status: '' @ cstatus,
                              ''Campaign Type: Email'',
                              ''---''])))))"

section \<open>Tool handlers\<close>

definition EMELIA_REST_API :: string where
  "EMELIA_REST_API = ''https://api.emelia.io''"

text \<open>The text every handler returns when its opening check \<^verbatim>\<open>!getEmeliaApiKey()\<close> holds.\<close>

definition AUTHENTICATION_REQUIRED :: string where
  "AUTHENTICATION_REQUIRED =
     ''Authentication required. Please use the authenticate tool with your Emelia API key first.''"

text \<open>
  The tail of the \<^verbatim>\<open>get-campaigns\<close> handler, lines 105 to 127 of \<^verbatim>\<open>index.ts\<close>, for a
  truthy \<^verbatim>\<open>campaignsData\<close>. \<^verbatim>\<open>campaigns.length === 0\<close> holds for the empty array and for
  an object whose property \<^verbatim>\<open>length\<close> is the number zero; every other truthy value that
  is not an array reaches \<^verbatim>\<open>campaigns.map\<close>, which is not a function there.
\<close>

definition render_campaigns :: "platform \<Rightarrow> json \<Rightarrow> string promise" where
  "render_campaigns P campaignsData =
     (let campaigns = or_else (get_property campaignsData ''campaigns'') (JArray [])
      in case campaigns of
           JArray cs \<Rightarrow>
             if length cs = 0 then Fulfilled ''No active campaigns''
             else
               (case sequence (map (formatCampaign P) cs) of
                  Inl e \<Rightarrow> Rejected e
                | Inr formattedCampaigns \<Rightarrow>
                    Fulfilled (''Campaigns list:'' @ [CHR 0x0A, CHR 0x0A]
                               @ join [CHR 0x0A] formattedCampaigns))
         | JObject kvs \<Rightarrow>
             if map_of kvs ''length'' = Some (JNumber 0) then Fulfilled ''No active campaigns''
             else Rejected (TypeError ''campaigns.map is not a function'')
         | _ \<Rightarrow> Rejected (TypeError ''campaigns.map is not a function''))"

text \<open>
  The \<^verbatim>\<open>get-campaigns\<close> handler, lines 73 to 128 of \<^verbatim>\<open>index.ts\<close>. Its argument
  \<open>status_arg\<close> is the optional \<^verbatim>\<open>status\<close>; its result is the text of the content it
  returns.
\<close>

definition get_campaigns ::
  "platform \<Rightarrow> helpers_state \<Rightarrow> string option \<Rightarrow> effect list \<times> string promise"
where
  "get_campaigns P s status_arg =
     (if falsy_string (getEmeliaApiKey s) then ([], Fulfilled AUTHENTICATION_REQUIRED)
      else
        let queryUrl = EMELIA_REST_API @ ''/emails/campaigns'';
            queryUrl = (if falsy_string status_arg then queryUrl
                        else queryUrl @ ''?status='' @ the status_arg);
            (effects, awaited) = makeEmeliaRequest P s queryUrl None
        in case awaited of
             Pending \<Rightarrow> (effects, Pending)
           | Rejected e \<Rightarrow> (effects, Rejected e)
           | Fulfilled campaignsData \<Rightarrow>
               if \<not> truthy campaignsData
               then (effects, Fulfilled ''Failed to retrieve campaigns data'')
               else (effects, render_campaigns P campaignsData))"

text \<open>The \<^verbatim>\<open>create-email-campaign\<close> handler, lines 138 to 172 of \<^verbatim>\<open>index.ts\<close>.\<close>

definition create_email_campaign ::
  "platform \<Rightarrow> helpers_state \<Rightarrow> string \<Rightarrow> effect list \<times> string promise"
where
  "create_email_campaign P s name =
     (if falsy_string (getEmeliaApiKey s) then ([], Fulfilled AUTHENTICATION_REQUIRED)
      else
        let (effects, awaited) =
              makeEmeliaRequest P s (EMELIA_REST_API @ ''/emails/campaigns'')
                (Some \<lparr>http_method = Some ''POST'',
                       body = Some (JSON_stringify P (JObject [(''name'', JString name)])),
                       headers = None\<rparr>)
        in case awaited of
             Pending \<Rightarrow> (effects, Pending)
           | Rejected e \<Rightarrow> (effects, Rejected e)
           | Fulfilled response \<Rightarrow>
               if \<not> truthy response
                  \<or> \<not> truthy (or_else (get_property response ''success'') JNull)
               then (effects, Fulfilled ''Failed to create campaign'')
               else (effects,
                     Fulfilled (''Campaign '' @ [CHR 0x22] @ name @ [CHR 0x22]
                                @ '' created successfully!'')))"

text \<open>
  The other thirty-five handlers that call \<^verbatim>\<open>makeEmeliaRequest\<close> (from
  \<^verbatim>\<open>add-contact-to-campaign\<close>, line 195, to \<^verbatim>\<open>update-contact-field\<close>, line 2575) are
  written to one pattern: the same opening check with the same text, then the handler's
  own preparation from the validated arguments, one call of the dispatcher, and a text
  computed from its result. The preparation either returns a text at once (the check of
  the arguments that follows the key check in \<^verbatim>\<open>add-contact-to-advanced-campaign\<close>,
  \<^verbatim>\<open>add-contact-to-advanced-list\<close>, \<^verbatim>\<open>add-email-provider\<close> and \<^verbatim>\<open>reply-to-email\<close>,
  lines 1334, 1572, 2249 and 2521), or throws, or gives the URL and the options of the
  request. The pattern is given here once, with the preparation and the rendering, which
  differ from handler to handler, as arguments.
\<close>

datatype preparation =
    ReturnText string
  | Throw js_error
  | Request string "caller_options option"

definition request_handler ::
  "platform \<Rightarrow> helpers_state \<Rightarrow> preparation \<Rightarrow> (json \<Rightarrow> string promise)
     \<Rightarrow> effect list \<times> string promise"
where
  "request_handler P s prepared render =
     (if falsy_string (getEmeliaApiKey s) then ([], Fulfilled AUTHENTICATION_REQUIRED)
      else
        (case prepared of
           ReturnText t \<Rightarrow> ([], Fulfilled t)
         | Throw e \<Rightarrow> ([], Rejected e)
         | Request url options \<Rightarrow>
             let (effects, awaited) = makeEmeliaRequest P s url options
             in case awaited of
                  Pending \<Rightarrow> (effects, Pending)
                | Rejected e \<Rightarrow> (effects, Rejected e)
                | Fulfilled response \<Rightarrow> (effects, render response)))"

section \<open>Facts about the credential holder and the dispatcher\<close>

lemma getEmeliaApiKey_nonempty: "getEmeliaApiKey s = Some k \<Longrightarrow> k \<noteq> []"
  by (auto simp: getEmeliaApiKey_def split: option.splits if_splits)

lemma falsy_getEmeliaApiKey: "falsy_string (getEmeliaApiKey s) = (getEmeliaApiKey s = None)"
  by (auto simp: falsy_string_def getEmeliaApiKey_def split: option.splits)

lemma makeEmeliaRequest_no_key:
  "getEmeliaApiKey s = None \<Longrightarrow>
     makeEmeliaRequest P s url options = ([ConsoleError NoApiKeyAvailable], Fulfilled JNull)"
  by (simp add: makeEmeliaRequest_def falsy_string_def)

lemma makeEmeliaRequest_key:
  "getEmeliaApiKey s = Some k \<Longrightarrow>
     makeEmeliaRequest P s url options =
       (let ro = requestOptions k options
        in case fetch P url ro of
             Pending \<Rightarrow> ([Fetch url ro], Pending)
           | Rejected e \<Rightarrow>
               ([Fetch url ro, ConsoleError (ErrorMakingRequest e)], Fulfilled JNull)
           | Fulfilled r \<Rightarrow>
               if \<not> ok r then
                 ([Fetch url ro, ConsoleError (ErrorMakingRequest (HTTPError (status r)))],
                  Fulfilled JNull)
               else
                 (case json_result r of
                    Pending \<Rightarrow> ([Fetch url ro], Pending)
                  | Rejected e \<Rightarrow>
                      ([Fetch url ro, ConsoleError (ErrorMakingRequest e)], Fulfilled JNull)
                  | Fulfilled v \<Rightarrow> ([Fetch url ro], Fulfilled v)))"
  using getEmeliaApiKey_nonempty [of s k]
  by (simp add: makeEmeliaRequest_def falsy_string_def)

lemma headers_requestOptions:
  "headers (requestOptions k options) = fixed_headers k ++ caller_headers options"
  by (simp add: requestOptions_def Let_def split: option.splits)

lemma sent_requests_makeEmeliaRequest:
  "getEmeliaApiKey s = Some k \<Longrightarrow>
     sent_requests (fst (makeEmeliaRequest P s url options)) = [requestOptions k options]"
  by (simp add: makeEmeliaRequest_key Let_def split: promise.splits)

text \<open>
  Two runs of the merge on caller headers that are not a plain object with the fixed
  spelling: an array of pairs lands under its index, and a name in another letter case
  stands beside the fixed header. In both the fixed \<^verbatim>\<open>Content-Type\<close> stays.
\<close>

lemma requestOptions_pair_array_example:
  "map (headers (requestOptions ''secret''
          (Some \<lparr>http_method = None, body = None,
                 headers = Some (PairArray [(''Content-Type'', ''text/plain'')])\<rparr>)))
     [''Content-Type'', ''0'']
   = [Some (HString ''application/json''), Some (HPair ''Content-Type'' ''text/plain'')]"
  by (simp add: requestOptions_def caller_headers_def fixed_headers_def)

lemma requestOptions_letter_case_example:
  "map (headers (requestOptions ''secret''
          (Some \<lparr>http_method = None, body = None,
                 headers = Some (PlainObject [''content-type'' \<mapsto> ''text/plain''])\<rparr>)))
     [''Content-Type'', ''content-type'']
   = [Some (HString ''application/json''), Some (HString ''text/plain'')]"
  by (simp add: requestOptions_def caller_headers_def fixed_headers_def map_add_def)

section \<open>Properties of the dispatcher and the handlers\<close>

text \<open>
  C1. While no credential is set, a call of the dispatcher sends no request: the
  only effect is the diagnostic, and the caller gets the absent result at once.
\<close>

theorem C1_no_credential_no_network:
  "getEmeliaApiKey s = None \<Longrightarrow>
     makeEmeliaRequest P s url options = ([ConsoleError NoApiKeyAvailable], Fulfilled JNull)
     \<and> sent_requests (fst (makeEmeliaRequest P s url options)) = []"
  by (simp add: makeEmeliaRequest_no_key)

theorem C1_witness:
  "getEmeliaApiKey initial_state = None
   \<and> makeEmeliaRequest
         \<lparr>fetch = (\<lambda>u ro. Fulfilled \<lparr>status = 200, json_result = Fulfilled (JBool True)\<rparr>),
          JSON_stringify = (\<lambda>v. []), Number_toString = (\<lambda>x. [])\<rparr>
         initial_state ''https://api.emelia.io/emails/campaigns'' None
       = ([ConsoleError NoApiKeyAvailable], Fulfilled JNull)"
proof -
  have h: "getEmeliaApiKey initial_state = None"
    by (simp add: getEmeliaApiKey_def initial_state_def)
  show ?thesis
    using h C1_no_credential_no_network [OF h] by simp
qed

text \<open>
  C2 as amended. \<^verbatim>\<open>setEmeliaApiKey\<close> stores whatever string it is given, in place of any
  earlier one. \<^verbatim>\<open>getEmeliaApiKey\<close> then gives that string back when it is not empty
  and the absent marker when it is empty; it has no failing branch.
\<close>

theorem C2_set_then_get:
  "userApiKey (setEmeliaApiKey token s) = Some token
   \<and> getEmeliaApiKey (setEmeliaApiKey token s) = (if token = [] then None else Some token)"
  by (simp add: setEmeliaApiKey_def getEmeliaApiKey_def)

text \<open>
  C2 as stated fails for the empty token: after \<^verbatim>\<open>setEmeliaApiKey('')\<close> the getter gives
  \<^verbatim>\<open>null\<close>, not the empty string.
\<close>

theorem C2_counterexample:
  "getEmeliaApiKey (setEmeliaApiKey [] initial_state) \<noteq> Some []"
  by (simp add: setEmeliaApiKey_def getEmeliaApiKey_def)

text \<open>
  C3. After \<^verbatim>\<open>setEmeliaApiKey(X)\<close> and then \<^verbatim>\<open>clearEmeliaApiKey()\<close> a dispatch does
  exactly what it does in the state in which no key was ever set: the same effects and the
  same result, namely the diagnostic alone, no request, and the absent result. Clearing
  twice is the same as clearing once.
\<close>

theorem C3_set_clear_like_never_set:
  "makeEmeliaRequest P (clearEmeliaApiKey (setEmeliaApiKey X initial_state)) url options
     = makeEmeliaRequest P initial_state url options
   \<and> makeEmeliaRequest P (clearEmeliaApiKey (setEmeliaApiKey X s)) url options
     = ([ConsoleError NoApiKeyAvailable], Fulfilled JNull)
   \<and> sent_requests
        (fst (makeEmeliaRequest P (clearEmeliaApiKey (setEmeliaApiKey X s)) url options)) = []
   \<and> clearEmeliaApiKey (setEmeliaApiKey X initial_state) = initial_state
   \<and> clearEmeliaApiKey (clearEmeliaApiKey s) = clearEmeliaApiKey s"
proof -
  have st: "clearEmeliaApiKey (setEmeliaApiKey X initial_state) = initial_state"
    by (simp add: clearEmeliaApiKey_def setEmeliaApiKey_def initial_state_def)
  have nokey: "getEmeliaApiKey (clearEmeliaApiKey (setEmeliaApiKey X s)) = None"
    by (simp add: getEmeliaApiKey_def clearEmeliaApiKey_def)
  have idem: "clearEmeliaApiKey (clearEmeliaApiKey s) = clearEmeliaApiKey s"
    by (simp add: clearEmeliaApiKey_def)
  show ?thesis
    by (simp add: st idem makeEmeliaRequest_no_key [OF nokey])
qed

text \<open>
  C4 as amended. When a key is set and the caller's headers are a plain object, the
  dispatcher sends one request whose headers are the fixed set (the client identifier,
  \<^verbatim>\<open>Accept\<close>, the bearer authorization made from the key, \<^verbatim>\<open>Content-Type\<close>) merged
  with the caller's headers by exact name, the caller's value last: a name the caller
  supplies carries the caller's value, and every name the caller does not supply in that
  exact spelling keeps the fixed value. When the caller gives no options or no headers,
  the fixed set is sent.
\<close>

theorem C4_header_merge:
  "getEmeliaApiKey s = Some k \<Longrightarrow>
     map headers (sent_requests (fst (makeEmeliaRequest P s url
         (Some \<lparr>http_method = mth, body = bdy, headers = Some (PlainObject m)\<rparr>))))
       = [\<lambda>n. case m n of Some v \<Rightarrow> Some (HString v) | None \<Rightarrow> fixed_headers k n]
     \<and> map headers (sent_requests (fst (makeEmeliaRequest P s url
         (Some \<lparr>http_method = mth, body = bdy, headers = None\<rparr>))))
       = [fixed_headers k]
     \<and> map headers (sent_requests (fst (makeEmeliaRequest P s url None))) = [fixed_headers k]
     \<and> fixed_headers k ''User-Agent'' = Some (HString ''emelia-mcp/1.0'')
     \<and> fixed_headers k ''Accept'' = Some (HString ''application/json'')
     \<and> fixed_headers k ''Authorization'' = Some (HString (''Bearer '' @ k))
     \<and> fixed_headers k ''Content-Type'' = Some (HString ''application/json'')
     \<and> dom (fixed_headers k) = {''User-Agent'', ''Accept'', ''Authorization'', ''Content-Type''}"
proof -
  assume key: "getEmeliaApiKey s = Some k"
  have plain: "fixed_headers k ++ caller_headers
                 (Some \<lparr>http_method = mth, body = bdy, headers = Some (PlainObject m)\<rparr>)
               = (\<lambda>n. case m n of Some v \<Rightarrow> Some (HString v) | None \<Rightarrow> fixed_headers k n)"
    by (rule ext) (simp add: caller_headers_def map_add_def split: option.splits)
  have none: "fixed_headers k ++ caller_headers
                (Some \<lparr>http_method = mth, body = bdy, headers = None\<rparr>) = fixed_headers k"
    "fixed_headers k ++ caller_headers None = fixed_headers k"
    by (simp_all add: caller_headers_def)
  have sent: "map headers (sent_requests (fst (makeEmeliaRequest P s url options)))
                = [fixed_headers k ++ caller_headers options]" for options
    by (simp add: sent_requests_makeEmeliaRequest [OF key] headers_requestOptions)
  have fixed: "fixed_headers k ''User-Agent'' = Some (HString ''emelia-mcp/1.0'')"
    "fixed_headers k ''Accept'' = Some (HString ''application/json'')"
    "fixed_headers k ''Authorization'' = Some (HString (''Bearer '' @ k))"
    "fixed_headers k ''Content-Type'' = Some (HString ''application/json'')"
    by (simp_all add: fixed_headers_def USER_AGENT_def)
  have d: "dom (fixed_headers k) = {''User-Agent'', ''Accept'', ''Authorization'', ''Content-Type''}"
    by (auto simp: fixed_headers_def)
  show ?thesis
    using fixed d by (simp add: sent plain none)
qed

theorem C4_witness:
  "getEmeliaApiKey (setEmeliaApiKey ''secret'' initial_state) = Some ''secret''
   \<and> map (\<lambda>h. (h ''Content-Type'', h ''content-type'', h ''Authorization'', h ''X-Trace''))
         (map headers (sent_requests (fst (makeEmeliaRequest
            \<lparr>fetch = (\<lambda>u ro. Rejected (TypeError ''fetch failed'')),
             JSON_stringify = (\<lambda>v. []), Number_toString = (\<lambda>x. [])\<rparr>
            (setEmeliaApiKey ''secret'' initial_state)
            ''https://api.emelia.io/emails/campaigns''
            (Some \<lparr>http_method = Some ''POST'', body = None,
                   headers = Some (PlainObject [''Content-Type'' \<mapsto> ''text/plain'',
                                                ''X-Trace'' \<mapsto> ''1''])\<rparr>)))))
       = [(Some (HString ''text/plain''), None, Some (HString ''Bearer secret''),
           Some (HString ''1''))]"
proof -
  have h: "getEmeliaApiKey (setEmeliaApiKey ''secret'' initial_state) = Some ''secret''"
    by (simp add: getEmeliaApiKey_def setEmeliaApiKey_def)
  show ?thesis
    using h C4_header_merge [OF h, of _ _ "Some ''POST''" None
        "[''Content-Type'' \<mapsto> ''text/plain'', ''X-Trace'' \<mapsto> ''1'']"]
    by (simp add: fixed_headers_def)
qed

text \<open>
  C4 as stated fails when the caller's headers are an instance of \<^verbatim>\<open>Headers\<close>: the
  spread copies nothing from it, so a \<^verbatim>\<open>Content-Type\<close> the caller supplies there does
  not replace the fixed default in the request sent.
\<close>

theorem C4_counterexample:
  "map (\<lambda>ro. headers ro ''Content-Type'')
     (sent_requests (fst (makeEmeliaRequest
        \<lparr>fetch = (\<lambda>u ro. Rejected (TypeError ''fetch failed'')),
         JSON_stringify = (\<lambda>v. []), Number_toString = (\<lambda>x. [])\<rparr>
        (setEmeliaApiKey ''secret'' initial_state)
        ''https://api.emelia.io/emails/campaigns''
        (Some \<lparr>http_method = Some ''POST'', body = None,
               headers = Some (HeadersInstance [(''Content-Type'', ''text/plain'')])\<rparr>))))
     = [Some (HString ''application/json'')]"
  by (simp add: makeEmeliaRequest_def getEmeliaApiKey_def setEmeliaApiKey_def
      falsy_string_def requestOptions_def caller_headers_def fixed_headers_def Let_def)

text \<open>
  C5. When the response has a status outside 200 to 299, the dispatcher sends that one
  request, logs the status error and gives the absent result, whatever the body is and
  whatever the status is; when the status is in the range and reading the body as JSON
  fails, the failure is caught and logged and the result is absent as well.
\<close>

theorem C5_bad_status_or_body_absent:
  "getEmeliaApiKey s = Some k \<Longrightarrow>
   fetch P url (requestOptions k options) = Fulfilled r \<Longrightarrow>
     (\<not> ok r \<longrightarrow>
        makeEmeliaRequest P s url options
          = ([Fetch url (requestOptions k options),
              ConsoleError (ErrorMakingRequest (HTTPError (status r)))],
             Fulfilled JNull))
     \<and> (ok r \<longrightarrow> json_result r = Rejected e \<longrightarrow>
        makeEmeliaRequest P s url options
          = ([Fetch url (requestOptions k options), ConsoleError (ErrorMakingRequest e)],
             Fulfilled JNull))"
  by (simp add: makeEmeliaRequest_key Let_def)

theorem C5_witness:
  "getEmeliaApiKey (setEmeliaApiKey ''secret'' initial_state) = Some ''secret''
   \<and> \<not> ok \<lparr>status = 404, json_result = Fulfilled (JObject [(''success'', JBool True)])\<rparr>
   \<and> snd (makeEmeliaRequest
         \<lparr>fetch = (\<lambda>u ro. Fulfilled
                     \<lparr>status = 404,
                      json_result = Fulfilled (JObject [(''success'', JBool True)])\<rparr>),
          JSON_stringify = (\<lambda>v. []), Number_toString = (\<lambda>x. [])\<rparr>
         (setEmeliaApiKey ''secret'' initial_state) ''https://api.emelia.io/stats'' None)
       = Fulfilled JNull
   \<and> ok \<lparr>status = 200, json_result = Rejected (SyntaxError ''Unexpected token'')\<rparr>
   \<and> snd (makeEmeliaRequest
         \<lparr>fetch = (\<lambda>u ro. Fulfilled
                     \<lparr>status = 200,
                      json_result = Rejected (SyntaxError ''Unexpected token'')\<rparr>),
          JSON_stringify = (\<lambda>v. []), Number_toString = (\<lambda>x. [])\<rparr>
         (setEmeliaApiKey ''secret'' initial_state) ''https://api.emelia.io/stats'' None)
       = Fulfilled JNull"
proof -
  let ?s = "setEmeliaApiKey ''secret'' initial_state"
  let ?r1 = "\<lparr>status = 404, json_result = Fulfilled (JObject [(''success'', JBool True)])\<rparr>"
  let ?r2 = "\<lparr>status = 200, json_result = Rejected (SyntaxError ''Unexpected token'')\<rparr>"
  let ?P1 = "\<lparr>fetch = (\<lambda>u ro. Fulfilled ?r1),
             JSON_stringify = (\<lambda>v. []), Number_toString = (\<lambda>x. [])\<rparr>"
  let ?P2 = "\<lparr>fetch = (\<lambda>u ro. Fulfilled ?r2),
             JSON_stringify = (\<lambda>v. []), Number_toString = (\<lambda>x. [])\<rparr>"
  have h: "getEmeliaApiKey ?s = Some ''secret''"
    by (simp add: getEmeliaApiKey_def setEmeliaApiKey_def)
  have f1: "fetch ?P1 ''https://api.emelia.io/stats'' (requestOptions ''secret'' None)
              = Fulfilled ?r1"
    by simp
  have f2: "fetch ?P2 ''https://api.emelia.io/stats'' (requestOptions ''secret'' None)
              = Fulfilled ?r2"
    by simp
  have o1: "\<not> ok ?r1" by (simp add: ok_def)
  have o2: "ok ?r2" by (simp add: ok_def)
  show ?thesis
    using h o1 o2 C5_bad_status_or_body_absent [OF h f1]
      C5_bad_status_or_body_absent [OF h f2, of "SyntaxError ''Unexpected token''"]
    by simp
qed

text \<open>
  C6. The dispatcher never throws: no input and no behaviour of the transport makes
  its promise reject. When the transport settles, that is when neither \<^verbatim>\<open>fetch\<close> nor
  the reading of the body stays pending for ever, the dispatcher returns a value, present
  or absent. This covers a missing credential, a network failure, a status outside the
  success range, a malformed body and success.
\<close>

theorem C6_never_throws:
  "(\<forall>e. snd (makeEmeliaRequest P s url options) \<noteq> Rejected e)
   \<and> ((\<forall>ro. fetch P url ro \<noteq> Pending
             \<and> (\<forall>r. fetch P url ro = Fulfilled r \<longrightarrow> json_result r \<noteq> Pending))
        \<longrightarrow> (\<exists>v. snd (makeEmeliaRequest P s url options) = Fulfilled v))"
proof (cases "getEmeliaApiKey s")
  case None
  then show ?thesis by (simp add: makeEmeliaRequest_no_key)
next
  case (Some k)
  show ?thesis
  proof (cases "fetch P url (requestOptions k options)")
    case (Fulfilled r)
    then show ?thesis
      using Some
      by (cases "json_result r") (auto simp: makeEmeliaRequest_key Let_def)
  next
    case (Rejected e)
    then show ?thesis using Some by (auto simp: makeEmeliaRequest_key Let_def)
  next
    case Pending
    then show ?thesis using Some by (auto simp: makeEmeliaRequest_key Let_def)
  qed
qed


theorem C6_witness:
  "(\<forall>ro. fetch \<lparr>fetch = (\<lambda>u ro. Rejected (TypeError ''fetch failed'')),
                 JSON_stringify = (\<lambda>v. []), Number_toString = (\<lambda>x. [])\<rparr>
               ''https://api.emelia.io/stats'' ro \<noteq> Pending)
   \<and> snd (makeEmeliaRequest
         \<lparr>fetch = (\<lambda>u ro. Rejected (TypeError ''fetch failed'')),
          JSON_stringify = (\<lambda>v. []), Number_toString = (\<lambda>x. [])\<rparr>
         (setEmeliaApiKey ''secret'' initial_state) ''https://api.emelia.io/stats'' None)
       = Fulfilled JNull"
  using C6_never_throws
    [of "\<lparr>fetch = (\<lambda>u ro. Rejected (TypeError ''fetch failed'')),
          JSON_stringify = (\<lambda>v. []), Number_toString = (\<lambda>x. [])\<rparr>"
        "setEmeliaApiKey ''secret'' initial_state" "''https://api.emelia.io/stats''" None]
  by (simp add: makeEmeliaRequest_def getEmeliaApiKey_def setEmeliaApiKey_def
      falsy_string_def Let_def)

text \<open>
  C7. With a key set and a transport that answers status 200 with the body
  \<^verbatim>\<open>{"success": true, "campaigns": []}\<close>, the dispatcher returns that object, and the
  \<^verbatim>\<open>get-campaigns\<close> handler, which gets it from the dispatcher, returns the text
  \<^verbatim>\<open>No active campaigns\<close> and not a list.
\<close>

theorem C7_empty_campaigns:
  "getEmeliaApiKey s = Some k \<Longrightarrow>
   fetch P = (\<lambda>u ro. Fulfilled
                \<lparr>status = 200,
                 json_result = Fulfilled (JObject [(''success'', JBool True),
                                                   (''campaigns'', JArray [])])\<rparr>) \<Longrightarrow>
     snd (makeEmeliaRequest P s url options)
       = Fulfilled (JObject [(''success'', JBool True), (''campaigns'', JArray [])])
     \<and> snd (get_campaigns P s status_arg) = Fulfilled ''No active campaigns''"
proof -
  assume key: "getEmeliaApiKey s = Some k"
  assume tr: "fetch P = (\<lambda>u ro. Fulfilled
                \<lparr>status = 200,
                 json_result = Fulfilled (JObject [(''success'', JBool True),
                                                   (''campaigns'', JArray [])])\<rparr>)"
  have disp: "makeEmeliaRequest P s u options' =
                ([Fetch u (requestOptions k options')],
                 Fulfilled (JObject [(''success'', JBool True), (''campaigns'', JArray [])]))"
    for u options'
    by (simp add: makeEmeliaRequest_key [OF key] tr ok_def Let_def)
  have rend: "render_campaigns P (JObject [(''success'', JBool True), (''campaigns'', JArray [])])
                = Fulfilled ''No active campaigns''"
    by (simp add: render_campaigns_def or_else_def)
  have "\<not> falsy_string (getEmeliaApiKey s)"
    using key falsy_getEmeliaApiKey [of s] by simp
  then have "snd (get_campaigns P s status_arg) = Fulfilled ''No active campaigns''"
    by (simp add: get_campaigns_def disp rend Let_def)
  with disp show ?thesis by simp
qed

theorem C7_witness:
  "getEmeliaApiKey (setEmeliaApiKey ''secret'' initial_state) = Some ''secret''
   \<and> snd (makeEmeliaRequest
         \<lparr>fetch = (\<lambda>u ro. Fulfilled
                     \<lparr>status = 200,
                      json_result = Fulfilled (JObject [(''success'', JBool True),
                                                        (''campaigns'', JArray [])])\<rparr>),
          JSON_stringify = (\<lambda>v. []), Number_toString = (\<lambda>x. [])\<rparr>
         (setEmeliaApiKey ''secret'' initial_state)
         ''https://api.emelia.io/emails/campaigns'' None)
       = Fulfilled (JObject [(''success'', JBool True), (''campaigns'', JArray [])])
   \<and> snd (get_campaigns
         \<lparr>fetch = (\<lambda>u ro. Fulfilled
                     \<lparr>status = 200,
                      json_result = Fulfilled (JObject [(''success'', JBool True),
                                                        (''campaigns'', JArray [])])\<rparr>),
          JSON_stringify = (\<lambda>v. []), Number_toString = (\<lambda>x. [])\<rparr>
         (setEmeliaApiKey ''secret'' initial_state) None)
       = Fulfilled ''No active campaigns''"
proof -
  let ?P = "\<lparr>fetch = (\<lambda>u ro. Fulfilled
                     \<lparr>status = 200,
                      json_result = Fulfilled (JObject [(''success'', JBool True),
                                                        (''campaigns'', JArray [])])\<rparr>),
          JSON_stringify = (\<lambda>v. []), Number_toString = (\<lambda>x. [])\<rparr>"
  have h: "getEmeliaApiKey (setEmeliaApiKey ''secret'' initial_state) = Some ''secret''"
    by (simp add: getEmeliaApiKey_def setEmeliaApiKey_def)
  have t: "fetch ?P = (\<lambda>u ro. Fulfilled
                \<lparr>status = 200,
                 json_result = Fulfilled (JObject [(''success'', JBool True),
                                                   (''campaigns'', JArray [])])\<rparr>)"
    by simp
  show ?thesis
    using h C7_empty_campaigns [OF h t, of "''https://api.emelia.io/emails/campaigns''" None None]
    by simp
qed

text \<open>
  C8. Each handler that calls the dispatcher opens with its own check of the key. When
  no usable key is set (none, or the empty string) the handler returns the
  authentication text with no effect at all: no request is sent and the dispatcher, with
  its diagnostic, is never reached. The check is the dispatcher's own condition, so when
  it passes the dispatcher's check passes too. This holds for \<^verbatim>\<open>get-campaigns\<close>, for
  \<^verbatim>\<open>create-email-campaign\<close> and for every handler of the common pattern.
\<close>

theorem C8_handlers_check_key_first:
  "falsy_string (getEmeliaApiKey s) \<Longrightarrow>
     get_campaigns P s status_arg = ([], Fulfilled AUTHENTICATION_REQUIRED)
     \<and> create_email_campaign P s name = ([], Fulfilled AUTHENTICATION_REQUIRED)
     \<and> request_handler P s request render = ([], Fulfilled AUTHENTICATION_REQUIRED)
     \<and> makeEmeliaRequest P s url options = ([ConsoleError NoApiKeyAvailable], Fulfilled JNull)
     \<and> AUTHENTICATION_REQUIRED \<noteq> ''Failed to retrieve campaigns data''
     \<and> AUTHENTICATION_REQUIRED \<noteq> ''Failed to create campaign''"
  by (simp add: get_campaigns_def create_email_campaign_def request_handler_def
      makeEmeliaRequest_def AUTHENTICATION_REQUIRED_def)

theorem C8_witness:
  "falsy_string (getEmeliaApiKey initial_state)
   \<and> get_campaigns
        \<lparr>fetch = (\<lambda>u ro. Fulfilled \<lparr>status = 200, json_result = Fulfilled (JBool True)\<rparr>),
         JSON_stringify = (\<lambda>v. []), Number_toString = (\<lambda>x. [])\<rparr>
        initial_state (Some ''RUNNING'')
      = ([], Fulfilled AUTHENTICATION_REQUIRED)
   \<and> create_email_campaign
        \<lparr>fetch = (\<lambda>u ro. Fulfilled \<lparr>status = 200, json_result = Fulfilled (JBool True)\<rparr>),
         JSON_stringify = (\<lambda>v. []), Number_toString = (\<lambda>x. [])\<rparr>
        initial_state ''Spring''
      = ([], Fulfilled AUTHENTICATION_REQUIRED)"
proof -
  have h: "falsy_string (getEmeliaApiKey initial_state)"
    by (simp add: falsy_string_def getEmeliaApiKey_def initial_state_def)
  show ?thesis
    using h C8_handlers_check_key_first [OF h] by simp
qed

text \<open>
  C9. Setting the same key twice in a row leaves the same state as setting it once, so
  every later dispatch has the same effects and the same result; in particular the
  requests sent carry the same headers.
\<close>

theorem C9_set_twice_same_dispatch:
  "setEmeliaApiKey X (setEmeliaApiKey X s) = setEmeliaApiKey X s
   \<and> makeEmeliaRequest P (setEmeliaApiKey X (setEmeliaApiKey X s)) url options
     = makeEmeliaRequest P (setEmeliaApiKey X s) url options
   \<and> map headers (sent_requests
         (fst (makeEmeliaRequest P (setEmeliaApiKey X (setEmeliaApiKey X s)) url options)))
     = map headers (sent_requests
         (fst (makeEmeliaRequest P (setEmeliaApiKey X s) url options)))"
proof -
  have "setEmeliaApiKey X (setEmeliaApiKey X s) = setEmeliaApiKey X s"
    by (simp add: setEmeliaApiKey_def)
  then show ?thesis by simp
qed

text \<open>
  C10. Setting the empty string as the key cannot be told from clearing the key by
  anything that reads it: the getter gives the absent marker in both states, and a
  dispatch in either state has the diagnostic as its only effect, sends no request and
  gives the absent result.
\<close>

theorem C10_empty_key_like_clear:
  "getEmeliaApiKey (setEmeliaApiKey [] s) = None
   \<and> getEmeliaApiKey (setEmeliaApiKey [] s) = getEmeliaApiKey (clearEmeliaApiKey s)
   \<and> makeEmeliaRequest P (setEmeliaApiKey [] s) url options
     = makeEmeliaRequest P (clearEmeliaApiKey s) url options
   \<and> makeEmeliaRequest P (setEmeliaApiKey [] s) url options
     = ([ConsoleError NoApiKeyAvailable], Fulfilled JNull)
   \<and> sent_requests (fst (makeEmeliaRequest P (setEmeliaApiKey [] s) url options)) = []"
proof -
  have e: "getEmeliaApiKey (setEmeliaApiKey [] s) = None"
    by (simp add: getEmeliaApiKey_def setEmeliaApiKey_def)
  have c: "getEmeliaApiKey (clearEmeliaApiKey s) = None"
    by (simp add: getEmeliaApiKey_def clearEmeliaApiKey_def)
  show ?thesis
    by (simp add: e c makeEmeliaRequest_no_key [OF e] makeEmeliaRequest_no_key [OF c])
qed

end
